theory Spec2Isabelle
  imports Complex_Main "HOL-Library.Multiset" "HOL-Library.AList"
    "HOL-Library.Char_ord" "HOL-Library.List_Lexorder"
begin

section \<open>Data model\<close>

text \<open>
  Identifiers are the strings the services pass around (\<open>id\<close>, \<open>userId\<close>,
  \<open>categoryId\<close>). A JavaScript \<open>Date\<close> is its time value: milliseconds since the
  epoch, an integer. Amounts (Prisma decimals read through \<open>parseFloat\<close>) are exact
  rationals: the rounding error of IEEE doubles is not modelled.
\<close>

type_synonym ident = string
type_synonym time_value = int

text \<open>The keys of \<open>ERROR_MESSAGES\<close> the services use, and the literal messages.\<close>

datatype message =
    CATEGORY_NOT_FOUND
  | CATEGORY_DUPLICATE_NAME
  | CATEGORY_DEFAULT_CATEGORY_DELETE
  | CATEGORY_DELETE_FAILED
  | EXPENSE_NOT_FOUND
  | BUDGET_NOT_FOUND
  | BUDGET_INVALID_DATE_RANGE
  | BUDGET_OVERLAPPING_BUDGET
  | Literal string

datatype http_exception =
    NotFoundException message
  | ConflictException message
  | ForbiddenException message
  | BadRequestException message

datatype PeriodType = WEEKLY | MONTHLY

record category =
  c_id :: ident
  c_name :: string
  c_icon :: "string option"
  c_color :: "string option"
  c_userId :: "ident option"
  c_isDefault :: bool

record expense =
  e_id :: ident
  e_name :: string
  e_amount :: rat
  e_categoryId :: ident
  e_userId :: ident
  e_date :: time_value
  e_notes :: "string option"
  e_createdAt :: time_value

record budget =
  b_id :: ident
  b_userId :: ident
  b_amount :: rat
  b_periodType :: PeriodType
  b_startDate :: time_value
  b_endDate :: time_value
  b_isActive :: bool

section \<open>The persistence gateway\<close>

text \<open>
  The store holds the three tables in row order and the log of the gateway calls the
  mutating services have issued, oldest first.
\<close>

datatype model = Category | Expense | Budget

datatype action = FindFirst | FindUnique | Create | Update | Delete

type_synonym call = "model \<times> action"

record store =
  categories :: "category list"
  expenses :: "expense list"
  budgets :: "budget list"
  calls :: "call list"

fun is_write :: "call \<Rightarrow> bool" where
  "is_write (m, Create) = True"
| "is_write (m, Update) = True"
| "is_write (m, Delete) = True"
| "is_write (m, a) = False"

definition logged :: "call \<Rightarrow> store \<Rightarrow> store" where
  "logged c st = st\<lparr>calls := calls st @ [c]\<rparr>"

definition category_findFirst ::
  "(category \<Rightarrow> bool) \<Rightarrow> store \<Rightarrow> category option \<times> store" where
  "category_findFirst wh st = (find wh (categories st), logged (Category, FindFirst) st)"

text \<open>
  \<open>findUnique({where: {id}, include: {_count: {select: {expenses: true}}}})\<close>: the row
  together with the number of expense rows that reference it. Callers that do not ask
  for the count ignore it.
\<close>

definition category_findUnique ::
  "ident \<Rightarrow> store \<Rightarrow> (category \<times> nat) option \<times> store" where
  "category_findUnique i st =
     (map_option (\<lambda>c. (c, length (filter (\<lambda>e. e_categoryId e = c_id c) (expenses st))))
        (find (\<lambda>c. c_id c = i) (categories st)),
      logged (Category, FindUnique) st)"

definition category_create :: "category \<Rightarrow> store \<Rightarrow> store" where
  "category_create row st =
     logged (Category, Create) (st\<lparr>categories := categories st @ [row]\<rparr>)"

definition category_update :: "ident \<Rightarrow> (category \<Rightarrow> category) \<Rightarrow> store \<Rightarrow> store" where
  "category_update i f st =
     logged (Category, Update)
       (st\<lparr>categories := map (\<lambda>c. if c_id c = i then f c else c) (categories st)\<rparr>)"

definition category_delete :: "ident \<Rightarrow> store \<Rightarrow> store" where
  "category_delete i st =
     logged (Category, Delete)
       (st\<lparr>categories := filter (\<lambda>c. c_id c \<noteq> i) (categories st)\<rparr>)"

section \<open>Category registry\<close>

record CreateCategoryDto =
  cc_name :: string
  cc_icon :: "string option"
  cc_color :: "string option"

text \<open>
  Modelled from the spec: \<open>UpdateCategoryDto\<close> is not among the source files; it is
  the create DTO with every field optional (the "fields" of update).
\<close>

record UpdateCategoryDto =
  uc_name :: "string option"
  uc_icon :: "string option"
  uc_color :: "string option"

text \<open>JavaScript truthiness of an optional string: present and not empty.\<close>

fun truthy :: "string option \<Rightarrow> bool" where
  "truthy None = False"
| "truthy (Some s) = (s \<noteq> [])"

text \<open>Prisma leaves a column alone when the data object has no value for it.\<close>

definition apply_UpdateCategoryDto :: "UpdateCategoryDto \<Rightarrow> category \<Rightarrow> category" where
  "apply_UpdateCategoryDto dto c =
     c\<lparr>c_name := (case uc_name dto of None \<Rightarrow> c_name c | Some n \<Rightarrow> n),
       c_icon := (case uc_icon dto of None \<Rightarrow> c_icon c | Some v \<Rightarrow> Some v),
       c_color := (case uc_color dto of None \<Rightarrow> c_color c | Some v \<Rightarrow> Some v)\<rparr>"

text \<open>
  \<open>CategoriesService.create\<close>. The identifier of the new row is generated by the
  database; it is the argument \<open>newId\<close>.
\<close>

definition categories_create ::
  "ident \<Rightarrow> ident \<Rightarrow> CreateCategoryDto \<Rightarrow> store \<Rightarrow> (http_exception + category) \<times> store" where
  "categories_create newId userId dto st =
     (case category_findFirst
             (\<lambda>c. c_name c = cc_name dto \<and> (c_userId c = Some userId \<or> c_userId c = None)) st of
        (Some existingCategory, st1) \<Rightarrow>
          (Inl (ConflictException CATEGORY_DUPLICATE_NAME), st1)
      | (None, st1) \<Rightarrow>
          (let row = \<lparr>c_id = newId, c_name = cc_name dto, c_icon = cc_icon dto,
                      c_color = cc_color dto, c_userId = Some userId, c_isDefault = False\<rparr>
           in (Inr row, category_create row st1)))"

text \<open>\<open>CategoriesService.update\<close>.\<close>

definition categories_update ::
  "ident \<Rightarrow> ident \<Rightarrow> UpdateCategoryDto \<Rightarrow> store \<Rightarrow> (http_exception + category) \<times> store" where
  "categories_update i userId dto st =
     (case category_findUnique i st of
        (None, st1) \<Rightarrow> (Inl (NotFoundException CATEGORY_NOT_FOUND), st1)
      | (Some (category, n), st1) \<Rightarrow>
          if c_isDefault category \<or> c_userId category \<noteq> Some userId then
            (Inl (ForbiddenException
                    (Literal ''You do not have permission to update this category'')), st1)
          else if truthy (uc_name dto) then
            (case category_findFirst
                    (\<lambda>c. Some (c_name c) = uc_name dto \<and> c_userId c = Some userId \<and> c_id c \<noteq> i)
                    st1 of
               (Some existingCategory, st2) \<Rightarrow>
                 (Inl (ConflictException CATEGORY_DUPLICATE_NAME), st2)
             | (None, st2) \<Rightarrow>
                 (Inr (apply_UpdateCategoryDto dto category),
                  category_update i (apply_UpdateCategoryDto dto) st2))
          else
            (Inr (apply_UpdateCategoryDto dto category),
             category_update i (apply_UpdateCategoryDto dto) st1))"

text \<open>\<open>CategoriesService.remove\<close>.\<close>

definition categories_remove ::
  "ident \<Rightarrow> ident \<Rightarrow> store \<Rightarrow> (http_exception + string) \<times> store" where
  "categories_remove i userId st =
     (case category_findUnique i st of
        (None, st1) \<Rightarrow> (Inl (NotFoundException CATEGORY_NOT_FOUND), st1)
      | (Some (category, count_expenses), st1) \<Rightarrow>
          if c_isDefault category then
            (Inl (ForbiddenException CATEGORY_DEFAULT_CATEGORY_DELETE), st1)
          else if c_userId category \<noteq> Some userId then
            (Inl (ForbiddenException
                    (Literal ''You do not have permission to delete this category'')), st1)
          else if count_expenses > 0 then
            (Inl (ConflictException CATEGORY_DELETE_FAILED), st1)
          else
            (Inr ''Category deleted successfully'', category_delete i st1))"

section \<open>Dates\<close>

text \<open>
  The budget planner computes a default end date with \<open>getDate\<close>, \<open>setDate\<close>,
  \<open>getMonth\<close> and \<open>setMonth\<close>. These are the ECMAScript definitions on time values
  (Day, TimeWithinDay, DayFromYear, YearFromTime, MonthFromTime, DateFromTime, MakeDay,
  MakeDate, LocalTime, UTC). The time zone of the host is the function \<open>tza\<close>, the
  LocalTZA of ECMAScript: \<open>tza t True\<close> is the offset of local time, in milliseconds,
  at the instant \<open>t\<close>, and \<open>tza t False\<close> the offset that applies to the local time
  value \<open>t\<close> (at a daylight-saving change, the host's choice). TimeClip, which only
  rejects instants more than 100 million days from the epoch, is left out.
\<close>

type_synonym zone = "time_value \<Rightarrow> bool \<Rightarrow> int"

definition msPerDay :: int where
  "msPerDay = 86400000"

definition Day :: "time_value \<Rightarrow> int" where
  "Day t = t div msPerDay"

definition TimeWithinDay :: "time_value \<Rightarrow> int" where
  "TimeWithinDay t = t mod msPerDay"

definition DaysInYear :: "int \<Rightarrow> int" where
  "DaysInYear y =
     (if y mod 4 \<noteq> 0 then 365
      else if y mod 100 \<noteq> 0 then 366
      else if y mod 400 \<noteq> 0 then 365
      else 366)"

definition DayFromYear :: "int \<Rightarrow> int" where
  "DayFromYear y =
     365 * (y - 1970) + (y - 1969) div 4 - (y - 1901) div 100 + (y - 1601) div 400"

text \<open>
  YearFromTime is the largest year whose first day is not after the day of \<open>t\<close>: the
  estimate from the mean year length is off by at most one, and is corrected.
\<close>

definition YearFromTime :: "time_value \<Rightarrow> int" where
  "YearFromTime t =
     (let d = Day t; y = 1970 + (d * 400) div 146097
      in if DayFromYear (y + 1) \<le> d then y + 1
         else if DayFromYear y \<le> d then y
         else y - 1)"

definition DayWithinYear :: "time_value \<Rightarrow> int" where
  "DayWithinYear t = Day t - DayFromYear (YearFromTime t)"

definition InLeapYear :: "time_value \<Rightarrow> int" where
  "InLeapYear t = (if DaysInYear (YearFromTime t) = 366 then 1 else 0)"

text \<open>
  The day within the year on which month \<open>m\<close> (0 to 11) starts, \<open>leap\<close> being 1 in a
  leap year and 0 otherwise; at 12 it is the length of the year.
\<close>

definition MonthStart :: "int \<Rightarrow> int \<Rightarrow> int" where
  "MonthStart leap m =
     (if m = 0 then 0
      else if m = 1 then 31
      else if m = 2 then 59 + leap
      else if m = 3 then 90 + leap
      else if m = 4 then 120 + leap
      else if m = 5 then 151 + leap
      else if m = 6 then 181 + leap
      else if m = 7 then 212 + leap
      else if m = 8 then 243 + leap
      else if m = 9 then 273 + leap
      else if m = 10 then 304 + leap
      else if m = 11 then 334 + leap
      else 365 + leap)"

definition MonthFromTime :: "time_value \<Rightarrow> int" where
  "MonthFromTime t =
     (let d = DayWithinYear t; leap = InLeapYear t
      in if d < 31 then 0
         else if d < 59 + leap then 1
         else if d < 90 + leap then 2
         else if d < 120 + leap then 3
         else if d < 151 + leap then 4
         else if d < 181 + leap then 5
         else if d < 212 + leap then 6
         else if d < 243 + leap then 7
         else if d < 273 + leap then 8
         else if d < 304 + leap then 9
         else if d < 334 + leap then 10
         else 11)"

definition DateFromTime :: "time_value \<Rightarrow> int" where
  "DateFromTime t = DayWithinYear t - MonthStart (InLeapYear t) (MonthFromTime t) + 1"

definition MakeDay :: "int \<Rightarrow> int \<Rightarrow> int \<Rightarrow> int" where
  "MakeDay year month date =
     (let ym = year + month div 12; mn = month mod 12
      in DayFromYear ym + MonthStart (if DaysInYear ym = 366 then 1 else 0) mn + date - 1)"

definition MakeDate :: "int \<Rightarrow> int \<Rightarrow> time_value" where
  "MakeDate day time = day * msPerDay + time"

definition LocalTime :: "zone \<Rightarrow> time_value \<Rightarrow> time_value" where
  "LocalTime tza t = t + tza t True"

definition UTC :: "zone \<Rightarrow> time_value \<Rightarrow> time_value" where
  "UTC tza t = t - tza t False"

definition getDate :: "zone \<Rightarrow> time_value \<Rightarrow> int" where
  "getDate tza t = DateFromTime (LocalTime tza t)"

definition getMonth :: "zone \<Rightarrow> time_value \<Rightarrow> int" where
  "getMonth tza t = MonthFromTime (LocalTime tza t)"

definition setDate :: "zone \<Rightarrow> time_value \<Rightarrow> int \<Rightarrow> time_value" where
  "setDate tza t dt =
     (let lt = LocalTime tza t
      in UTC tza (MakeDate (MakeDay (YearFromTime lt) (MonthFromTime lt) dt) (TimeWithinDay lt)))"

definition setMonth :: "zone \<Rightarrow> time_value \<Rightarrow> int \<Rightarrow> time_value" where
  "setMonth tza t m =
     (let lt = LocalTime tza t
      in UTC tza (MakeDate (MakeDay (YearFromTime lt) m (DateFromTime lt)) (TimeWithinDay lt)))"

section \<open>Budget planner\<close>

definition budget_findFirst ::
  "(budget \<Rightarrow> bool) \<Rightarrow> store \<Rightarrow> budget option \<times> store" where
  "budget_findFirst wh st = (find wh (budgets st), logged (Budget, FindFirst) st)"

definition budget_findUnique :: "ident \<Rightarrow> store \<Rightarrow> budget option \<times> store" where
  "budget_findUnique i st =
     (find (\<lambda>b. b_id b = i) (budgets st), logged (Budget, FindUnique) st)"

definition budget_create :: "budget \<Rightarrow> store \<Rightarrow> store" where
  "budget_create row st = logged (Budget, Create) (st\<lparr>budgets := budgets st @ [row]\<rparr>)"

definition budget_update :: "ident \<Rightarrow> (budget \<Rightarrow> budget) \<Rightarrow> store \<Rightarrow> store" where
  "budget_update i f st =
     logged (Budget, Update)
       (st\<lparr>budgets := map (\<lambda>b. if b_id b = i then f b else b) (budgets st)\<rparr>)"

definition budget_delete :: "ident \<Rightarrow> store \<Rightarrow> store" where
  "budget_delete i st =
     logged (Budget, Delete) (st\<lparr>budgets := filter (\<lambda>b. b_id b \<noteq> i) (budgets st)\<rparr>)"

text \<open>
  The DTO's date strings are validated ISO dates; \<open>new Date(string)\<close> is their time
  value, which is what the record holds. An omitted (or empty) \<open>endDate\<close> is \<open>None\<close>.
\<close>

record CreateBudgetDto =
  cb_amount :: rat
  cb_periodType :: PeriodType
  cb_startDate :: time_value
  cb_endDate :: "time_value option"

text \<open>
  Modelled from the spec: \<open>UpdateBudgetDto\<close> is not among the source files; it is the
  create DTO with every field optional (the "fields" of update).
\<close>

record UpdateBudgetDto =
  ub_amount :: "rat option"
  ub_periodType :: "PeriodType option"
  ub_startDate :: "time_value option"
  ub_endDate :: "time_value option"

text \<open>The end date of \<open>BudgetsService.create\<close>: given, or computed from the period.\<close>

definition create_end :: "zone \<Rightarrow> CreateBudgetDto \<Rightarrow> time_value" where
  "create_end tza dto =
     (case cb_endDate dto of
        Some endDate \<Rightarrow> endDate
      | None \<Rightarrow>
          (let end0 = cb_startDate dto;
               end1 = (if cb_periodType dto = WEEKLY
                       then setDate tza end0 (getDate tza end0 + 7)
                       else setMonth tza end0 (getMonth tza end0 + 1))
           in setDate tza end1 (getDate tza end1 - 1)))"

text \<open>The \<open>where\<close> clause of the overlap query in \<open>BudgetsService.create\<close>.\<close>

definition overlap_where :: "ident \<Rightarrow> time_value \<Rightarrow> time_value \<Rightarrow> budget \<Rightarrow> bool" where
  "overlap_where userId start end b \<longleftrightarrow>
     b_userId b = userId \<and> b_isActive b \<and>
     ((b_startDate b \<le> start \<and> b_endDate b \<ge> start)
      \<or> (b_startDate b \<le> end \<and> b_endDate b \<ge> end)
      \<or> (b_startDate b \<ge> start \<and> b_endDate b \<le> end))"

text \<open>
  \<open>BudgetsService.create\<close>. The database generates the identifier (\<open>newId\<close>) and
  fills \<open>isActive\<close>, which the service does not pass, with the column's default
  (\<open>isActiveDefault\<close>: the Prisma schema is not among the source files).
\<close>

definition budgets_create ::
  "zone \<Rightarrow> bool \<Rightarrow> ident \<Rightarrow> ident \<Rightarrow> CreateBudgetDto \<Rightarrow> store
     \<Rightarrow> (http_exception + budget) \<times> store" where
  "budgets_create tza isActiveDefault newId userId dto st =
     (let start = cb_startDate dto; end = create_end tza dto
      in if end \<le> start then
           (Inl (BadRequestException BUDGET_INVALID_DATE_RANGE), st)
         else
           (case budget_findFirst (overlap_where userId start end) st of
              (Some overlappingBudget, st1) \<Rightarrow>
                (Inl (BadRequestException BUDGET_OVERLAPPING_BUDGET), st1)
            | (None, st1) \<Rightarrow>
                (let row = \<lparr>b_id = newId, b_userId = userId, b_amount = cb_amount dto,
                            b_periodType = cb_periodType dto, b_startDate = start,
                            b_endDate = end, b_isActive = isActiveDefault\<rparr>
                 in (Inr row, budget_create row st1))))"

definition apply_UpdateBudgetDto :: "UpdateBudgetDto \<Rightarrow> budget \<Rightarrow> budget" where
  "apply_UpdateBudgetDto dto b =
     b\<lparr>b_amount := (case ub_amount dto of None \<Rightarrow> b_amount b | Some v \<Rightarrow> v),
       b_periodType := (case ub_periodType dto of None \<Rightarrow> b_periodType b | Some v \<Rightarrow> v),
       b_startDate := (case ub_startDate dto of None \<Rightarrow> b_startDate b | Some v \<Rightarrow> v),
       b_endDate := (case ub_endDate dto of None \<Rightarrow> b_endDate b | Some v \<Rightarrow> v)\<rparr>"

text \<open>\<open>BudgetsService.update\<close>.\<close>

definition budgets_update ::
  "ident \<Rightarrow> ident \<Rightarrow> UpdateBudgetDto \<Rightarrow> store \<Rightarrow> (http_exception + budget) \<times> store" where
  "budgets_update i userId dto st =
     (case budget_findUnique i st of
        (None, st1) \<Rightarrow> (Inl (NotFoundException BUDGET_NOT_FOUND), st1)
      | (Some budget, st1) \<Rightarrow>
          if b_userId budget \<noteq> userId then
            (Inl (ForbiddenException
                    (Literal ''You do not have permission to update this budget'')), st1)
          else
            (let start = (case ub_startDate dto of Some d \<Rightarrow> d | None \<Rightarrow> b_startDate budget);
                 end = (case ub_endDate dto of Some d \<Rightarrow> d | None \<Rightarrow> b_endDate budget)
             in if end \<le> start then
                  (Inl (BadRequestException BUDGET_INVALID_DATE_RANGE), st1)
                else
                  (Inr (apply_UpdateBudgetDto dto budget),
                   budget_update i (apply_UpdateBudgetDto dto) st1)))"

text \<open>\<open>BudgetsService.remove\<close>.\<close>

definition budgets_remove ::
  "ident \<Rightarrow> ident \<Rightarrow> store \<Rightarrow> (http_exception + string) \<times> store" where
  "budgets_remove i userId st =
     (case budget_findUnique i st of
        (None, st1) \<Rightarrow> (Inl (NotFoundException BUDGET_NOT_FOUND), st1)
      | (Some budget, st1) \<Rightarrow>
          if b_userId budget \<noteq> userId then
            (Inl (ForbiddenException
                    (Literal ''You do not have permission to delete this budget'')), st1)
          else (Inr ''Budget deleted successfully'', budget_delete i st1))"

text \<open>
  \<open>Math.round\<close> rounds to the nearest integer, halves upwards; \<open>Math.ceil\<close> is the
  ceiling.
\<close>

definition Math_round :: "rat \<Rightarrow> int" where
  "Math_round x = \<lfloor>x + 1 / 2\<rfloor>"

definition Math_ceil :: "rat \<Rightarrow> int" where
  "Math_ceil x = \<lceil>x\<rceil>"





section \<open>Statistics aggregator\<close>

text \<open>
  \<open>include: {category: true}\<close> attaches to each expense the category row its
  \<open>categoryId\<close> refers to. The relation is required, so under the foreign key every
  expense has one; a row without one does not occur in the result of this model.
\<close>

definition include_category :: "store \<Rightarrow> expense list \<Rightarrow> (expense \<times> category) list" where
  "include_category st es =
     List.map_filter
       (\<lambda>e. map_option (\<lambda>c. (e, c)) (find (\<lambda>c. c_id c = e_categoryId e) (categories st))) es"

record category_snapshot =
  cs_id :: ident
  cs_name :: string
  cs_icon :: string
  cs_color :: string

record CategoryBreakdown =
  br_category :: category_snapshot
  br_total :: rat
  br_count :: nat
  br_percentage :: rat

text \<open>The expression \<open>x || ''\<close> on an optional string.\<close>

fun or_empty :: "string option \<Rightarrow> string" where
  "or_empty None = []"
| "or_empty (Some s) = s"

text \<open>
  The \<open>where\<close> object of \<open>getCategoryStatistics\<close>: the owner, and the bounds that
  were given (an omitted or empty bound is \<open>None\<close>).
\<close>

definition statistics_where ::
  "ident \<Rightarrow> time_value option \<Rightarrow> time_value option \<Rightarrow> expense \<Rightarrow> bool" where
  "statistics_where userId startDate endDate e \<longleftrightarrow>
     e_userId e = userId
     \<and> (case startDate of None \<Rightarrow> True | Some s \<Rightarrow> e_date e \<ge> s)
     \<and> (case endDate of None \<Rightarrow> True | Some t \<Rightarrow> e_date e \<le> t)"

text \<open>
  The body of the loop over the expenses. The JavaScript \<open>Map\<close> is an association
  list in insertion order: \<open>get\<close> is \<open>map_of\<close>, and both \<open>set\<close> on a new key and the
  in-place change of an entry are \<open>AList.update\<close>.
\<close>

definition category_step ::
  "(ident \<times> CategoryBreakdown) list \<times> rat \<Rightarrow> expense \<times> category
     \<Rightarrow> (ident \<times> CategoryBreakdown) list \<times> rat" where
  "category_step acc row =
     (case acc of (categoryMap, total_amount) \<Rightarrow>
      case row of (expense, category) \<Rightarrow>
        (let key = e_categoryId expense;
             amount = e_amount expense
         in case map_of categoryMap key of
              Some existing \<Rightarrow>
                (AList.update key
                   (existing\<lparr>br_total := br_total existing + amount,
                             br_count := br_count existing + 1\<rparr>) categoryMap,
                 total_amount + amount)
            | None \<Rightarrow>
                (AList.update key
                   \<lparr>br_category = \<lparr>cs_id = c_id category, cs_name = c_name category,
                                    cs_icon = or_empty (c_icon category),
                                    cs_color = or_empty (c_color category)\<rparr>,
                    br_total = amount, br_count = 1, br_percentage = 0\<rparr> categoryMap,
                 total_amount + amount)))"

text \<open>
  \<open>StatisticsService.getCategoryStatistics\<close> (the running \<open>total\<close> of the source is
  \<open>total_amount\<close>). \<open>Array.prototype.sort\<close> is stable, and the comparator
  \<open>b.total - a.total\<close> orders by descending total.
\<close>

definition getCategoryStatistics ::
  "ident \<Rightarrow> time_value option \<Rightarrow> time_value option \<Rightarrow> store \<Rightarrow> CategoryBreakdown list" where
  "getCategoryStatistics userId startDate endDate st =
     (let expenses = include_category st
                       (filter (statistics_where userId startDate endDate) (expenses st))
      in case foldl category_step ([], 0) expenses of (categoryMap, total_amount) \<Rightarrow>
           sort_key (\<lambda>cat. - br_total cat)
             (map (\<lambda>cat. cat\<lparr>br_percentage :=
                                (if total_amount > 0
                                 then of_int (Math_round ((br_total cat / total_amount) * 100 * 100)) / 100
                                 else 0)\<rparr>)
                (map snd categoryMap)))"

section \<open>Expense ledger\<close>

definition expense_findUnique :: "ident \<Rightarrow> store \<Rightarrow> expense option \<times> store" where
  "expense_findUnique i st =
     (find (\<lambda>e. e_id e = i) (expenses st), logged (Expense, FindUnique) st)"

definition expense_create :: "expense \<Rightarrow> store \<Rightarrow> store" where
  "expense_create row st = logged (Expense, Create) (st\<lparr>expenses := expenses st @ [row]\<rparr>)"

definition expense_update :: "ident \<Rightarrow> (expense \<Rightarrow> expense) \<Rightarrow> store \<Rightarrow> store" where
  "expense_update i f st =
     logged (Expense, Update)
       (st\<lparr>expenses := map (\<lambda>e. if e_id e = i then f e else e) (expenses st)\<rparr>)"

definition expense_delete :: "ident \<Rightarrow> store \<Rightarrow> store" where
  "expense_delete i st =
     logged (Expense, Delete) (st\<lparr>expenses := filter (\<lambda>e. e_id e \<noteq> i) (expenses st)\<rparr>)"

record CreateExpenseDto =
  ce_name :: string
  ce_amount :: rat
  ce_categoryId :: ident
  ce_date :: "time_value option"
  ce_notes :: "string option"

text \<open>
  Modelled from the spec: \<open>UpdateExpenseDto\<close> is not among the source files; it is the
  create DTO with every field optional (the "fields" of update).
\<close>

record UpdateExpenseDto =
  ue_name :: "string option"
  ue_amount :: "rat option"
  ue_categoryId :: "ident option"
  ue_date :: "time_value option"
  ue_notes :: "string option"

text \<open>
  The category filter of the expense ledger, \<open>{id, OR: [{userId}, {userId: null,
  isDefault: true}]}\<close>: the caller's own category, or a default.
\<close>

definition visible_category :: "ident \<Rightarrow> ident \<Rightarrow> category \<Rightarrow> bool" where
  "visible_category i userId c \<longleftrightarrow>
     c_id c = i \<and> (c_userId c = Some userId \<or> (c_userId c = None \<and> c_isDefault c))"

text \<open>
  \<open>ExpensesService.create\<close>; \<open>now\<close> is the value of \<open>new Date()\<close>, which is also the
  creation time the database records. The result carries the included category.
\<close>

definition expenses_create ::
  "time_value \<Rightarrow> ident \<Rightarrow> ident \<Rightarrow> CreateExpenseDto \<Rightarrow> store
     \<Rightarrow> (http_exception + expense \<times> category option) \<times> store" where
  "expenses_create now newId userId dto st =
     (case category_findFirst (visible_category (ce_categoryId dto) userId) st of
        (None, st1) \<Rightarrow> (Inl (NotFoundException CATEGORY_NOT_FOUND), st1)
      | (Some category, st1) \<Rightarrow>
          (let expenseDate = (case ce_date dto of Some d \<Rightarrow> d | None \<Rightarrow> now);
               row = \<lparr>e_id = newId, e_name = ce_name dto, e_amount = ce_amount dto,
                      e_categoryId = ce_categoryId dto, e_userId = userId,
                      e_date = expenseDate, e_notes = ce_notes dto, e_createdAt = now\<rparr>;
               st2 = expense_create row st1
           in (Inr (row, find (\<lambda>c. c_id c = e_categoryId row) (categories st2)), st2)))"

definition apply_UpdateExpenseDto :: "UpdateExpenseDto \<Rightarrow> expense \<Rightarrow> expense" where
  "apply_UpdateExpenseDto dto e =
     e\<lparr>e_name := (case ue_name dto of None \<Rightarrow> e_name e | Some v \<Rightarrow> v),
       e_amount := (case ue_amount dto of None \<Rightarrow> e_amount e | Some v \<Rightarrow> v),
       e_categoryId := (case ue_categoryId dto of None \<Rightarrow> e_categoryId e | Some v \<Rightarrow> v),
       e_date := (case ue_date dto of None \<Rightarrow> e_date e | Some v \<Rightarrow> v),
       e_notes := (case ue_notes dto of None \<Rightarrow> e_notes e | Some v \<Rightarrow> Some v)\<rparr>"

text \<open>\<open>ExpensesService.update\<close>.\<close>

definition expenses_update ::
  "ident \<Rightarrow> ident \<Rightarrow> UpdateExpenseDto \<Rightarrow> store
     \<Rightarrow> (http_exception + expense \<times> category option) \<times> store" where
  "expenses_update i userId dto st =
     (case expense_findUnique i st of
        (None, st1) \<Rightarrow> (Inl (NotFoundException EXPENSE_NOT_FOUND), st1)
      | (Some expense, st1) \<Rightarrow>
          if e_userId expense \<noteq> userId then
            (Inl (ForbiddenException
                    (Literal ''You do not have permission to update this expense'')), st1)
          else
            (case (if truthy (ue_categoryId dto) then
                     (case category_findFirst
                             (\<lambda>c. Some (c_id c) = ue_categoryId dto
                                   \<and> visible_category (c_id c) userId c) st1 of
                        (None, st2) \<Rightarrow> (False, st2)
                      | (Some category, st2) \<Rightarrow> (True, st2))
                   else (True, st1)) of
               (False, st2) \<Rightarrow> (Inl (NotFoundException CATEGORY_NOT_FOUND), st2)
             | (True, st2) \<Rightarrow>
                 (let row = apply_UpdateExpenseDto dto expense;
                      st3 = expense_update i (apply_UpdateExpenseDto dto) st2
                  in (Inr (row, find (\<lambda>c. c_id c = e_categoryId row) (categories st3)),
                      st3))))"

text \<open>\<open>ExpensesService.remove\<close>.\<close>

definition expenses_remove ::
  "ident \<Rightarrow> ident \<Rightarrow> store \<Rightarrow> (http_exception + string) \<times> store" where
  "expenses_remove i userId st =
     (case expense_findUnique i st of
        (None, st1) \<Rightarrow> (Inl (NotFoundException EXPENSE_NOT_FOUND), st1)
      | (Some expense, st1) \<Rightarrow>
          if e_userId expense \<noteq> userId then
            (Inl (ForbiddenException
                    (Literal ''You do not have permission to delete this expense'')), st1)
          else (Inr ''Expense deleted successfully'', expense_delete i st1))"

datatype SortBy = DATE | AMOUNT | NAME | CREATED_AT

datatype SortOrder = ASC | DESC

text \<open>
  \<open>QueryExpenseDto\<close>, with its defaults filled in (page 1, limit 10, date, desc). The
  validation of the DTO keeps \<open>page\<close> and \<open>limit\<close> at 1 or more.
\<close>

record QueryExpenseDto =
  q_page :: int
  q_limit :: int
  q_sortBy :: SortBy
  q_order :: SortOrder
  q_categoryId :: "ident option"
  q_startDate :: "time_value option"
  q_endDate :: "time_value option"
  q_minAmount :: "rat option"
  q_maxAmount :: "rat option"

definition query_where :: "ident \<Rightarrow> QueryExpenseDto \<Rightarrow> expense \<Rightarrow> bool" where
  "query_where userId query e \<longleftrightarrow>
     e_userId e = userId
     \<and> (if truthy (q_categoryId query) then Some (e_categoryId e) = q_categoryId query else True)
     \<and> (case q_startDate query of None \<Rightarrow> True | Some s \<Rightarrow> e_date e \<ge> s)
     \<and> (case q_endDate query of None \<Rightarrow> True | Some t \<Rightarrow> e_date e \<le> t)
     \<and> (case q_minAmount query of None \<Rightarrow> True | Some a \<Rightarrow> e_amount e \<ge> a)
     \<and> (case q_maxAmount query of None \<Rightarrow> True | Some a \<Rightarrow> e_amount e \<le> a)"

text \<open>
  \<open>orderBy: {[sortBy]: order}\<close>. The order of rows with equal keys is the database's
  choice; here it is the table order (ascending) or its reverse (descending).
\<close>

definition order_by :: "SortBy \<Rightarrow> SortOrder \<Rightarrow> expense list \<Rightarrow> expense list" where
  "order_by sortBy order es =
     (let sorted_asc = (case sortBy of
                          DATE \<Rightarrow> sort_key e_date es
                        | AMOUNT \<Rightarrow> sort_key e_amount es
                        | NAME \<Rightarrow> sort_key e_name es
                        | CREATED_AT \<Rightarrow> sort_key e_createdAt es)
      in case order of ASC \<Rightarrow> sorted_asc | DESC \<Rightarrow> rev sorted_asc)"

record pagination =
  pg_total :: nat
  pg_page :: int
  pg_limit :: int
  pg_totalPages :: "int option"

record expense_page =
  ep_expenses :: "(expense \<times> category) list"
  ep_pagination :: pagination

text \<open>
  \<open>ExpensesService.findAll\<close>. \<open>MAX_LIMIT\<close> is \<open>APP_CONSTANTS.PAGINATION.MAX_LIMIT\<close>,
  whose declaration is not among the source files. \<open>Math.ceil(total / take)\<close> is not a
  finite number when \<open>take\<close> is 0: then \<open>totalPages\<close> is \<open>None\<close>.
\<close>

definition findAll :: "int \<Rightarrow> ident \<Rightarrow> QueryExpenseDto \<Rightarrow> store \<Rightarrow> expense_page" where
  "findAll MAX_LIMIT userId query st =
     (let skip = (q_page query - 1) * q_limit query;
          take_n = min (q_limit query) MAX_LIMIT;
          matching = filter (query_where userId query) (expenses st);
          expenses = include_category st
                       (take (nat take_n)
                          (drop (nat skip) (order_by (q_sortBy query) (q_order query) matching)));
          total = length matching
      in \<lparr>ep_expenses = expenses,
          ep_pagination =
            \<lparr>pg_total = total, pg_page = q_page query, pg_limit = take_n,
             pg_totalPages =
               (if take_n = 0 then None
                else Some (Math_ceil (of_nat total / of_int take_n)))\<rparr>\<rparr>)"

section \<open>Requests\<close>

text \<open>
  The nine mutating operations of the three services as one request type, so that a
  property of all of them is one statement. The arguments are those of the service
  functions above.
\<close>

datatype request =
    CategoriesCreate ident ident CreateCategoryDto
  | CategoriesUpdate ident ident UpdateCategoryDto
  | CategoriesRemove ident ident
  | ExpensesCreate time_value ident ident CreateExpenseDto
  | ExpensesUpdate ident ident UpdateExpenseDto
  | ExpensesRemove ident ident
  | BudgetsCreate zone bool ident ident CreateBudgetDto
  | BudgetsUpdate ident ident UpdateBudgetDto
  | BudgetsRemove ident ident

datatype response =
    CategoryRow category
  | ExpenseRow "expense \<times> category option"
  | BudgetRow budget
  | Message string

definition answer :: "('a \<Rightarrow> response) \<Rightarrow> (http_exception + 'a) \<times> store
                        \<Rightarrow> (http_exception + response) \<times> store" where
  "answer f r = (map_sum id f (fst r), snd r)"

fun perform :: "request \<Rightarrow> store \<Rightarrow> (http_exception + response) \<times> store" where
  "perform (CategoriesCreate newId userId dto) st =
     answer CategoryRow (categories_create newId userId dto st)"
| "perform (CategoriesUpdate i userId dto) st =
     answer CategoryRow (categories_update i userId dto st)"
| "perform (CategoriesRemove i userId) st =
     answer Message (categories_remove i userId st)"
| "perform (ExpensesCreate now newId userId dto) st =
     answer ExpenseRow (expenses_create now newId userId dto st)"
| "perform (ExpensesUpdate i userId dto) st =
     answer ExpenseRow (expenses_update i userId dto st)"
| "perform (ExpensesRemove i userId) st =
     answer Message (expenses_remove i userId st)"
| "perform (BudgetsCreate tza isActiveDefault newId userId dto) st =
     answer BudgetRow (budgets_create tza isActiveDefault newId userId dto st)"
| "perform (BudgetsUpdate i userId dto) st =
     answer BudgetRow (budgets_update i userId dto st)"
| "perform (BudgetsRemove i userId) st =
     answer Message (budgets_remove i userId st)"

text \<open>The gateway calls that took the log of \<open>st\<close> to that of \<open>st'\<close>.\<close>

definition issued :: "store \<Rightarrow> store \<Rightarrow> call list" where
  "issued st st' = drop (length (calls st)) (calls st')"

definition same_tables :: "store \<Rightarrow> store \<Rightarrow> bool" where
  "same_tables st st' \<longleftrightarrow>
     categories st' = categories st \<and> expenses st' = expenses st \<and> budgets st' = budgets st"

section \<open>Specification-side notions\<close>

text \<open>
  The calendar words of the specification, in the local time of the host. \<open>k\<close> days
  after the instant \<open>t\<close>: the instant at which the local clock shows the same time of
  day, \<open>k\<close> calendar days later.
\<close>

definition plus_days :: "zone \<Rightarrow> time_value \<Rightarrow> int \<Rightarrow> time_value" where
  "plus_days tza t k = UTC tza (LocalTime tza t + k * msPerDay)"





section \<open>Example data\<close>

definition demo_categories :: "category list" where
  "demo_categories =
     [\<lparr>c_id = ''c-food'', c_name = ''Food'', c_icon = None, c_color = None,
       c_userId = None, c_isDefault = True\<rparr>,
      \<lparr>c_id = ''c-lunch'', c_name = ''Lunch'', c_icon = None, c_color = None,
       c_userId = Some ''alice'', c_isDefault = False\<rparr>,
      \<lparr>c_id = ''c-trips'', c_name = ''Trips'', c_icon = None, c_color = None,
       c_userId = Some ''alice'', c_isDefault = False\<rparr>,
      \<lparr>c_id = ''c-bob'', c_name = ''Lunch'', c_icon = None, c_color = None,
       c_userId = Some ''bob'', c_isDefault = False\<rparr>]"

definition demo_expenses :: "expense list" where
  "demo_expenses =
     [\<lparr>e_id = ''e1'', e_name = ''Pizza'', e_amount = 100, e_categoryId = ''c-lunch'',
       e_userId = ''alice'', e_date = 1705276800000, e_notes = None, e_createdAt = 1705276800000\<rparr>,
      \<lparr>e_id = ''e2'', e_name = ''Bread'', e_amount = 50, e_categoryId = ''c-food'',
       e_userId = ''alice'', e_date = 1705363200000, e_notes = None, e_createdAt = 1705363200000\<rparr>]"

definition demo_store :: store where
  "demo_store = \<lparr>categories = demo_categories, expenses = demo_expenses, budgets = [], calls = []\<rparr>"

text \<open>Two hosts: one on UTC, one with the daylight-saving changes of New York in 2024.\<close>

definition utc_zone :: zone where
  "utc_zone t isUTC = 0"


text \<open>The time value of \<open>new Date('YYYY-MM-DD')\<close>: midnight UTC of that day.\<close>

definition iso_date :: "int \<Rightarrow> int \<Rightarrow> int \<Rightarrow> time_value" where
  "iso_date y m d = MakeDate (MakeDay y (m - 1) d) 0"

definition january_budget :: budget where
  "january_budget =
     \<lparr>b_id = ''b-jan'', b_userId = ''alice'', b_amount = 500, b_periodType = MONTHLY,
      b_startDate = iso_date 2024 1 1, b_endDate = iso_date 2024 1 31, b_isActive = True\<rparr>"

definition february_budget :: budget where
  "february_budget =
     \<lparr>b_id = ''b-feb'', b_userId = ''alice'', b_amount = 300, b_periodType = MONTHLY,
      b_startDate = iso_date 2024 2 1, b_endDate = iso_date 2024 2 28, b_isActive = True\<rparr>"

definition empty_store :: store where
  "empty_store = \<lparr>categories = [], expenses = [], budgets = [], calls = []\<rparr>"

definition budget_store :: store where
  "budget_store = \<lparr>categories = [], expenses = [], budgets = [january_budget], calls = []\<rparr>"

definition two_budget_store :: store where
  "two_budget_store =
     \<lparr>categories = [], expenses = [], budgets = [january_budget, february_budget], calls = []\<rparr>"


section \<open>Auxiliary facts\<close>


lemma find_Some_D: "find P xs = Some x \<Longrightarrow> x \<in> set xs \<and> P x"
  by (induction xs) (auto split: if_splits)

lemma find_None_conv: "find P xs = None \<longleftrightarrow> (\<forall>x\<in>set xs. \<not> P x)"
  by (induction xs) auto

lemma find_is_Some_conv: "(\<exists>x. find P xs = Some x) \<longleftrightarrow> (\<exists>x\<in>set xs. P x)"
  using find_None_conv [of P xs] by (cases "find P xs") auto

lemma find_distinct_key:
  "distinct (map f xs) \<Longrightarrow> x \<in> set xs \<Longrightarrow> find (\<lambda>y. f y = f x) xs = Some x"
  by (induction xs) (auto simp: rev_image_eqI)

lemma categories_remove_cases:
  assumes "find (\<lambda>c. c_id c = i) (categories st) = Some c"
  shows "categories_remove i u st =
     (if c_isDefault c then
        (Inl (ForbiddenException CATEGORY_DEFAULT_CATEGORY_DELETE), logged (Category, FindUnique) st)
      else if c_userId c \<noteq> Some u then
        (Inl (ForbiddenException (Literal ''You do not have permission to delete this category'')),
         logged (Category, FindUnique) st)
      else if (\<exists>e\<in>set (expenses st). e_categoryId e = i) then
        (Inl (ConflictException CATEGORY_DELETE_FAILED), logged (Category, FindUnique) st)
      else (Inr ''Category deleted successfully'',
            category_delete i (logged (Category, FindUnique) st)))"
proof -
  have ci: "c_id c = i" using find_Some_D [OF assms] by simp
  have "(0 < length (filter (\<lambda>e. e_categoryId e = i) (expenses st)))
        = (\<exists>e\<in>set (expenses st). e_categoryId e = i)"
    by (simp add: filter_empty_conv)
  then show ?thesis
    using assms ci by (simp add: categories_remove_def category_findUnique_def)
qed

section \<open>Calendar arithmetic\<close>





















lemma plus_days_fixed_offset:
  assumes "\<And>t isUTC. tza t isUTC = c"
  shows "plus_days tza t k = t + k * msPerDay"
  by (simp add: plus_days_def UTC_def LocalTime_def assms)







section \<open>Category registry: deletion guards\<close>

text \<open>
  C5. \<open>CategoriesService.remove\<close> on an existing category (identifiers are the
  primary key, so they are distinct): a default category is refused with Forbidden
  whoever the caller is; a category that is not a default and not the caller's is
  refused with Forbidden; the caller's own category is refused with Conflict while an
  expense references it; otherwise the row is deleted, and nothing else changes.
\<close>

theorem categories_remove_guards:
  assumes "distinct (map c_id (categories st))" and "c \<in> set (categories st)"
  shows "(c_isDefault c \<longrightarrow>
            fst (categories_remove (c_id c) u st)
              = Inl (ForbiddenException CATEGORY_DEFAULT_CATEGORY_DELETE))
       \<and> (\<not> c_isDefault c \<and> c_userId c \<noteq> Some u \<longrightarrow>
            fst (categories_remove (c_id c) u st)
              = Inl (ForbiddenException
                       (Literal ''You do not have permission to delete this category'')))
       \<and> (\<not> c_isDefault c \<and> c_userId c = Some u
            \<and> (\<exists>e\<in>set (expenses st). e_categoryId e = c_id c) \<longrightarrow>
            fst (categories_remove (c_id c) u st) = Inl (ConflictException CATEGORY_DELETE_FAILED))
       \<and> (\<not> c_isDefault c \<and> c_userId c = Some u
            \<and> \<not> (\<exists>e\<in>set (expenses st). e_categoryId e = c_id c) \<longrightarrow>
            fst (categories_remove (c_id c) u st) = Inr ''Category deleted successfully''
            \<and> categories (snd (categories_remove (c_id c) u st))
                = filter (\<lambda>x. x \<noteq> c) (categories st)
            \<and> c \<notin> set (categories (snd (categories_remove (c_id c) u st)))
            \<and> expenses (snd (categories_remove (c_id c) u st)) = expenses st
            \<and> budgets (snd (categories_remove (c_id c) u st)) = budgets st)"
proof -
  have f: "find (\<lambda>x. c_id x = c_id c) (categories st) = Some c"
    using assms by (rule find_distinct_key)
  have same: "filter (\<lambda>x. c_id x \<noteq> c_id c) (categories st) = filter (\<lambda>x. x \<noteq> c) (categories st)"
  proof (rule filter_cong [OF refl])
    fix x assume "x \<in> set (categories st)"
    then show "(c_id x \<noteq> c_id c) = (x \<noteq> c)"
      using assms by (auto simp: distinct_map inj_on_def)
  qed
  show ?thesis
    unfolding categories_remove_cases [OF f]
    by (simp add: category_delete_def logged_def same)
qed

theorem categories_remove_guards_witness:
  "fst (categories_remove ''c-food'' ''alice'' demo_store)
     = Inl (ForbiddenException CATEGORY_DEFAULT_CATEGORY_DELETE)
   \<and> fst (categories_remove ''c-bob'' ''alice'' demo_store)
     = Inl (ForbiddenException (Literal ''You do not have permission to delete this category''))
   \<and> fst (categories_remove ''c-lunch'' ''alice'' demo_store)
     = Inl (ConflictException CATEGORY_DELETE_FAILED)
   \<and> fst (categories_remove ''c-trips'' ''alice'' demo_store) = Inr ''Category deleted successfully''
   \<and> map c_id (categories (snd (categories_remove ''c-trips'' ''alice'' demo_store)))
       = [''c-food'', ''c-lunch'', ''c-bob'']"
proof -
  have d: "distinct (map c_id (categories demo_store))"
    by (simp add: demo_store_def demo_categories_def)
  have m0: "demo_categories ! 0 \<in> set (categories demo_store)"
   and m1: "demo_categories ! 1 \<in> set (categories demo_store)"
   and m2: "demo_categories ! 2 \<in> set (categories demo_store)"
   and m3: "demo_categories ! 3 \<in> set (categories demo_store)"
    by (simp_all add: demo_store_def demo_categories_def)
  show ?thesis
    using categories_remove_guards [OF d m0, of "''alice''"]
          categories_remove_guards [OF d m1, of "''alice''"]
          categories_remove_guards [OF d m2, of "''alice''"]
          categories_remove_guards [OF d m3, of "''alice''"]
    by (simp add: demo_store_def demo_categories_def demo_expenses_def)
qed

section \<open>Category registry: name collisions\<close>

lemma categories_create_conflict_find:
  "fst (categories_create newId u dto st) = Inl (ConflictException CATEGORY_DUPLICATE_NAME)
   \<longleftrightarrow> (\<exists>x. find (\<lambda>c. c_name c = cc_name dto \<and> (c_userId c = Some u \<or> c_userId c = None))
              (categories st) = Some x)"
  by (cases "find (\<lambda>c. c_name c = cc_name dto \<and> (c_userId c = Some u \<or> c_userId c = None))
              (categories st)")
     (simp_all add: categories_create_def category_findFirst_def Let_def)

lemma categories_update_conflict_find:
  "fst (categories_update i u dto st) = Inl (ConflictException CATEGORY_DUPLICATE_NAME)
   \<longleftrightarrow> (\<exists>c. find (\<lambda>c. c_id c = i) (categories st) = Some c
          \<and> \<not> c_isDefault c \<and> c_userId c = Some u \<and> truthy (uc_name dto)
          \<and> (\<exists>x. find (\<lambda>c. Some (c_name c) = uc_name dto \<and> c_userId c = Some u \<and> c_id c \<noteq> i)
                 (categories st) = Some x))"
proof (cases "find (\<lambda>c. c_id c = i) (categories st)")
  case None
  then show ?thesis
    by (simp add: categories_update_def category_findUnique_def)
next
  case (Some c)
  have cats: "categories (logged (Category, FindUnique) st) = categories st"
    by (simp add: logged_def)
  show ?thesis
    using Some
    by (cases "find (\<lambda>c. Some (c_name c) = uc_name dto \<and> c_userId c = Some u \<and> c_id c \<noteq> i)
                 (categories st)")
       (simp_all add: categories_update_def category_findUnique_def category_findFirst_def cats)
qed

lemma truthy_conv: "truthy x \<longleftrightarrow> (\<exists>n. x = Some n \<and> n \<noteq> [])"
  by (cases x) simp_all

text \<open>
  C7. The name-collision checks of the category registry have different scopes.
  \<open>create\<close> fails with Conflict exactly when some category of that name is owned by
  the caller or is ownerless. \<open>update\<close> fails with Conflict exactly when the target
  exists, is the caller's own non-default category, a (non-empty) new name is given, and
  another row of the caller has that name: ownerless defaults are not consulted.
\<close>

theorem category_name_collision_scopes:
  "(fst (categories_create newId u cdto st) = Inl (ConflictException CATEGORY_DUPLICATE_NAME)
    \<longleftrightarrow> (\<exists>c\<in>set (categories st).
           c_name c = cc_name cdto \<and> (c_userId c = Some u \<or> c_userId c = None)))
   \<and> (fst (categories_update i u udto st) = Inl (ConflictException CATEGORY_DUPLICATE_NAME)
    \<longleftrightarrow> (\<exists>c n. find (\<lambda>c. c_id c = i) (categories st) = Some c
           \<and> \<not> c_isDefault c \<and> c_userId c = Some u
           \<and> uc_name udto = Some n \<and> n \<noteq> []
           \<and> (\<exists>c'\<in>set (categories st). c_name c' = n \<and> c_userId c' = Some u \<and> c_id c' \<noteq> i)))"
proof -
  have "(\<exists>c. find (\<lambda>c. c_id c = i) (categories st) = Some c
          \<and> \<not> c_isDefault c \<and> c_userId c = Some u \<and> truthy (uc_name udto)
          \<and> (\<exists>c'\<in>set (categories st).
                Some (c_name c') = uc_name udto \<and> c_userId c' = Some u \<and> c_id c' \<noteq> i))
        \<longleftrightarrow> (\<exists>c n. find (\<lambda>c. c_id c = i) (categories st) = Some c
           \<and> \<not> c_isDefault c \<and> c_userId c = Some u
           \<and> uc_name udto = Some n \<and> n \<noteq> []
           \<and> (\<exists>c'\<in>set (categories st). c_name c' = n \<and> c_userId c' = Some u \<and> c_id c' \<noteq> i))"
    unfolding truthy_conv by auto
  then show ?thesis
    by (simp only: categories_create_conflict_find categories_update_conflict_find
          find_is_Some_conv)
qed

theorem category_name_collision_scopes_witness:
  "fst (categories_create ''c-new'' ''alice'' \<lparr>cc_name = ''Food'', cc_icon = None, cc_color = None\<rparr>
          demo_store) = Inl (ConflictException CATEGORY_DUPLICATE_NAME)
   \<and> fst (categories_update ''c-trips'' ''alice''
            \<lparr>uc_name = Some ''Food'', uc_icon = None, uc_color = None\<rparr> demo_store)
       = Inr \<lparr>c_id = ''c-trips'', c_name = ''Food'', c_icon = None, c_color = None,
              c_userId = Some ''alice'', c_isDefault = False\<rparr>
   \<and> fst (categories_update ''c-trips'' ''alice''
            \<lparr>uc_name = Some ''Lunch'', uc_icon = None, uc_color = None\<rparr> demo_store)
       = Inl (ConflictException CATEGORY_DUPLICATE_NAME)"
proof -
  have a: "\<exists>c\<in>set (categories demo_store).
             c_name c = cc_name \<lparr>cc_name = ''Food'', cc_icon = None, cc_color = None\<rparr>
             \<and> (c_userId c = Some ''alice'' \<or> c_userId c = None)"
    by (simp add: demo_store_def demo_categories_def)
  have b: "\<exists>c n. find (\<lambda>c. c_id c = ''c-trips'') (categories demo_store) = Some c
           \<and> \<not> c_isDefault c \<and> c_userId c = Some ''alice''
           \<and> uc_name \<lparr>uc_name = Some ''Lunch'', uc_icon = None, uc_color = None\<rparr> = Some n \<and> n \<noteq> []
           \<and> (\<exists>c'\<in>set (categories demo_store).
                 c_name c' = n \<and> c_userId c' = Some ''alice'' \<and> c_id c' \<noteq> ''c-trips'')"
    by (simp add: demo_store_def demo_categories_def)
  have c: "fst (categories_update ''c-trips'' ''alice''
            \<lparr>uc_name = Some ''Food'', uc_icon = None, uc_color = None\<rparr> demo_store)
       = Inr \<lparr>c_id = ''c-trips'', c_name = ''Food'', c_icon = None, c_color = None,
              c_userId = Some ''alice'', c_isDefault = False\<rparr>"
    by (simp add: categories_update_def category_findUnique_def category_findFirst_def
          apply_UpdateCategoryDto_def logged_def demo_store_def demo_categories_def)
  show ?thesis
    using a b c
      category_name_collision_scopes [of "''c-new''" "''alice''"
        "\<lparr>cc_name = ''Food'', cc_icon = None, cc_color = None\<rparr>" demo_store
        "''c-trips''" "\<lparr>uc_name = Some ''Lunch'', uc_icon = None, uc_color = None\<rparr>"]
    by blast
qed

section \<open>Budget planner: creation\<close>

lemma iso_dates:
  "iso_date 2024 1 1 = 1704067200000" "iso_date 2024 1 10 = 1704844800000"
  "iso_date 2024 1 15 = 1705276800000"
  "iso_date 2024 1 31 = 1706659200000" "iso_date 2024 2 1 = 1706745600000"
  "iso_date 2024 2 15 = 1707955200000" "iso_date 2024 2 28 = 1709078400000"
  by (simp_all add: iso_date_def MakeDate_def MakeDay_def DayFromYear_def DaysInYear_def
        MonthStart_def msPerDay_def)

lemma budgets_create_eq:
  "budgets_create tza dflt newId u dto st =
     (if create_end tza dto \<le> cb_startDate dto then
        (Inl (BadRequestException BUDGET_INVALID_DATE_RANGE), st)
      else
        (case find (overlap_where u (cb_startDate dto) (create_end tza dto)) (budgets st) of
           Some b \<Rightarrow> (Inl (BadRequestException BUDGET_OVERLAPPING_BUDGET),
                      logged (Budget, FindFirst) st)
         | None \<Rightarrow>
             (Inr \<lparr>b_id = newId, b_userId = u, b_amount = cb_amount dto,
                    b_periodType = cb_periodType dto, b_startDate = cb_startDate dto,
                    b_endDate = create_end tza dto, b_isActive = dflt\<rparr>,
              budget_create
                \<lparr>b_id = newId, b_userId = u, b_amount = cb_amount dto,
                  b_periodType = cb_periodType dto, b_startDate = cb_startDate dto,
                  b_endDate = create_end tza dto, b_isActive = dflt\<rparr>
                (logged (Budget, FindFirst) st))))"
  by (simp add: budgets_create_def budget_findFirst_def Let_def split: option.split)

lemma three_disjuncts_intersect:
  fixes s e bs be :: int
  assumes "s \<le> e" and "bs \<le> be"
  shows "((bs \<le> s \<and> be \<ge> s) \<or> (bs \<le> e \<and> be \<ge> e) \<or> (bs \<ge> s \<and> be \<le> e))
         \<longleftrightarrow> {bs..be} \<inter> {s..e} \<noteq> {}"
proof -
  have "{bs..be} \<inter> {s..e} \<noteq> {} \<longleftrightarrow> max bs s \<le> min be e"
    by (auto simp: Int_atLeastAtMost)
  then show ?thesis
    using assms by (auto simp: max_def min_def split: if_splits)
qed

lemma create_BadRequest_find:
  assumes "cb_startDate dto < create_end tza dto"
  shows "(\<exists>m. fst (budgets_create tza dflt newId u dto st) = Inl (BadRequestException m))
         \<longleftrightarrow> (\<exists>b. find (overlap_where u (cb_startDate dto) (create_end tza dto)) (budgets st)
                   = Some b)"
  using assms
  by (cases "find (overlap_where u (cb_startDate dto) (create_end tza dto)) (budgets st)")
     (simp_all add: budgets_create_eq)

text \<open>
  C1, amended. \<open>BudgetsService.create\<close> has two BadRequest rejections: the date range
  and the overlap. When the resulting range is valid (the end after the start), create
  fails with BadRequest if and only if some active budget of the same owner has an
  interval that intersects the new one, endpoints included; for every stored budget
  whose start is not after its end, the three-disjunct check of the code is exactly
  that intersection of closed intervals.
\<close>

theorem budgets_create_overlap:
  assumes "cb_startDate dto < create_end tza dto"
    and "\<forall>b\<in>set (budgets st). b_startDate b \<le> b_endDate b"
  shows "((\<exists>m. fst (budgets_create tza dflt newId u dto st) = Inl (BadRequestException m))
          \<longleftrightarrow> (\<exists>b\<in>set (budgets st). b_userId b = u \<and> b_isActive b
                 \<and> {b_startDate b..b_endDate b}
                     \<inter> {cb_startDate dto..create_end tza dto} \<noteq> {}))
       \<and> (\<forall>b\<in>set (budgets st).
             overlap_where u (cb_startDate dto) (create_end tza dto) b
             \<longleftrightarrow> b_userId b = u \<and> b_isActive b
                 \<and> {b_startDate b..b_endDate b}
                     \<inter> {cb_startDate dto..create_end tza dto} \<noteq> {})"
proof -
  have eq: "overlap_where u (cb_startDate dto) (create_end tza dto) b
            \<longleftrightarrow> b_userId b = u \<and> b_isActive b
                \<and> {b_startDate b..b_endDate b} \<inter> {cb_startDate dto..create_end tza dto} \<noteq> {}"
    if "b \<in> set (budgets st)" for b
  proof -
    have "cb_startDate dto \<le> create_end tza dto" "b_startDate b \<le> b_endDate b"
      using assms that by auto
    from three_disjuncts_intersect [OF this] show ?thesis
      by (simp add: overlap_where_def)
  qed
  have "(\<exists>m. fst (budgets_create tza dflt newId u dto st) = Inl (BadRequestException m))
        \<longleftrightarrow> (\<exists>b\<in>set (budgets st). overlap_where u (cb_startDate dto) (create_end tza dto) b)"
    by (simp only: create_BadRequest_find [OF assms(1)] find_is_Some_conv)
  then show ?thesis using eq by blast
qed

theorem budgets_create_overlap_witness:
  "(\<exists>m. fst (budgets_create utc_zone True ''b-new'' ''alice''
              \<lparr>cb_amount = 400, cb_periodType = MONTHLY, cb_startDate = iso_date 2024 1 15,
               cb_endDate = Some (iso_date 2024 2 15)\<rparr> budget_store)
          = Inl (BadRequestException m))
   \<and> \<not> (\<exists>m. fst (budgets_create utc_zone True ''b-new'' ''alice''
              \<lparr>cb_amount = 400, cb_periodType = MONTHLY, cb_startDate = iso_date 2024 2 1,
               cb_endDate = Some (iso_date 2024 2 28)\<rparr> budget_store)
          = Inl (BadRequestException m))"
proof -
  let ?overlapping = "\<lparr>cb_amount = 400, cb_periodType = MONTHLY,
      cb_startDate = iso_date 2024 1 15, cb_endDate = Some (iso_date 2024 2 15)\<rparr>"
  let ?consecutive = "\<lparr>cb_amount = 400, cb_periodType = MONTHLY,
      cb_startDate = iso_date 2024 2 1, cb_endDate = Some (iso_date 2024 2 28)\<rparr>"
  have wf: "\<forall>b\<in>set (budgets budget_store). b_startDate b \<le> b_endDate b"
    by (simp add: budget_store_def january_budget_def iso_dates)
  have r1: "cb_startDate ?overlapping < create_end utc_zone ?overlapping"
    and r2: "cb_startDate ?consecutive < create_end utc_zone ?consecutive"
    by (simp_all add: create_end_def iso_dates)
  have i1: "\<exists>b\<in>set (budgets budget_store). b_userId b = ''alice'' \<and> b_isActive b
              \<and> {b_startDate b..b_endDate b}
                  \<inter> {cb_startDate ?overlapping..create_end utc_zone ?overlapping} \<noteq> {}"
    by (simp add: budget_store_def january_budget_def create_end_def iso_dates Int_atLeastAtMost)
  have i2: "\<not> (\<exists>b\<in>set (budgets budget_store). b_userId b = ''alice'' \<and> b_isActive b
              \<and> {b_startDate b..b_endDate b}
                  \<inter> {cb_startDate ?consecutive..create_end utc_zone ?consecutive} \<noteq> {})"
    by (simp add: budget_store_def january_budget_def create_end_def iso_dates Int_atLeastAtMost)
  show ?thesis
    using budgets_create_overlap [OF r1 wf, of True "''b-new''" "''alice''"]
          budgets_create_overlap [OF r2 wf, of True "''b-new''" "''alice''"] i1 i2
    by blast
qed

theorem budgets_create_overlap_counterexample:
  "fst (budgets_create utc_zone True ''b-new'' ''alice''
          \<lparr>cb_amount = 400, cb_periodType = MONTHLY, cb_startDate = iso_date 2024 1 15,
           cb_endDate = Some (iso_date 2024 1 15)\<rparr> empty_store)
     = Inl (BadRequestException BUDGET_INVALID_DATE_RANGE)
   \<and> budgets empty_store = []"
  by (simp add: budgets_create_eq create_end_def empty_store_def)






section \<open>Budget planner: update\<close>

lemma budgets_update_eq:
  assumes "find (\<lambda>x. b_id x = i) (budgets st) = Some b"
  shows "budgets_update i u dto st =
     (if b_userId b \<noteq> u then
        (Inl (ForbiddenException (Literal ''You do not have permission to update this budget'')),
         logged (Budget, FindUnique) st)
      else if b_endDate (apply_UpdateBudgetDto dto b) \<le> b_startDate (apply_UpdateBudgetDto dto b)
      then (Inl (BadRequestException BUDGET_INVALID_DATE_RANGE), logged (Budget, FindUnique) st)
      else (Inr (apply_UpdateBudgetDto dto b),
            budget_update i (apply_UpdateBudgetDto dto) (logged (Budget, FindUnique) st)))"
  using assms
  by (simp add: budgets_update_def budget_findUnique_def Let_def apply_UpdateBudgetDto_def)

text \<open>
  C4. \<open>BudgetsService.update\<close> on a budget of the caller validates only the merged
  date range (the new start and end where given, the stored ones otherwise): it fails
  with BadRequest when the merged end is not after the merged start, and otherwise it
  succeeds and writes the merged row, whatever other budgets the store holds.
\<close>

theorem budgets_update_range_only:
  assumes "distinct (map b_id (budgets st))" and "b \<in> set (budgets st)" and "b_userId b = u"
  shows "(let start = (case ub_startDate dto of Some d \<Rightarrow> d | None \<Rightarrow> b_startDate b);
              end = (case ub_endDate dto of Some d \<Rightarrow> d | None \<Rightarrow> b_endDate b)
          in (end \<le> start \<longrightarrow>
                fst (budgets_update (b_id b) u dto st)
                  = Inl (BadRequestException BUDGET_INVALID_DATE_RANGE))
           \<and> (start < end \<longrightarrow>
                fst (budgets_update (b_id b) u dto st) = Inr (apply_UpdateBudgetDto dto b)
                \<and> b_startDate (apply_UpdateBudgetDto dto b) = start
                \<and> b_endDate (apply_UpdateBudgetDto dto b) = end
                \<and> budgets (snd (budgets_update (b_id b) u dto st))
                    = map (\<lambda>x. if x = b then apply_UpdateBudgetDto dto b else x) (budgets st)))"
proof -
  have f: "find (\<lambda>x. b_id x = b_id b) (budgets st) = Some b"
    using assms(1,2) by (rule find_distinct_key)
  have same: "map (\<lambda>x. if b_id x = b_id b then apply_UpdateBudgetDto dto x else x) (budgets st)
              = map (\<lambda>x. if x = b then apply_UpdateBudgetDto dto b else x) (budgets st)"
  proof (rule map_cong [OF refl])
    fix x assume "x \<in> set (budgets st)"
    then have "b_id x = b_id b \<longleftrightarrow> x = b"
      using assms(1,2) by (auto simp: distinct_map inj_on_def)
    then show "(if b_id x = b_id b then apply_UpdateBudgetDto dto x else x)
               = (if x = b then apply_UpdateBudgetDto dto b else x)"
      by auto
  qed
  have s: "b_startDate (apply_UpdateBudgetDto dto b)
             = (case ub_startDate dto of Some d \<Rightarrow> d | None \<Rightarrow> b_startDate b)"
    and e: "b_endDate (apply_UpdateBudgetDto dto b)
             = (case ub_endDate dto of Some d \<Rightarrow> d | None \<Rightarrow> b_endDate b)"
    by (simp_all add: apply_UpdateBudgetDto_def split: option.split)
  show ?thesis
    unfolding Let_def budgets_update_eq [OF f] s [symmetric] e [symmetric]
    using assms(3) by (simp add: budget_update_def logged_def same)
qed

theorem budgets_update_range_only_witness:
  "fst (budgets_update ''b-feb'' ''alice''
          \<lparr>ub_amount = None, ub_periodType = None, ub_startDate = Some (iso_date 2024 1 10),
           ub_endDate = None\<rparr> two_budget_store)
     = Inr (february_budget\<lparr>b_startDate := iso_date 2024 1 10\<rparr>)
   \<and> budgets (snd (budgets_update ''b-feb'' ''alice''
          \<lparr>ub_amount = None, ub_periodType = None, ub_startDate = Some (iso_date 2024 1 10),
           ub_endDate = None\<rparr> two_budget_store))
     = [january_budget, february_budget\<lparr>b_startDate := iso_date 2024 1 10\<rparr>]
   \<and> overlap_where ''alice'' (iso_date 2024 1 10) (iso_date 2024 2 28) january_budget
   \<and> fst (budgets_update ''b-feb'' ''alice''
          \<lparr>ub_amount = None, ub_periodType = None, ub_startDate = Some (iso_date 2024 2 28),
           ub_endDate = None\<rparr> two_budget_store)
     = Inl (BadRequestException BUDGET_INVALID_DATE_RANGE)"
proof -
  let ?widen = "\<lparr>ub_amount = None, ub_periodType = None,
                  ub_startDate = Some (iso_date 2024 1 10), ub_endDate = None\<rparr>"
  let ?collapse = "\<lparr>ub_amount = None, ub_periodType = None,
                     ub_startDate = Some (iso_date 2024 2 28), ub_endDate = None\<rparr>"
  have d: "distinct (map b_id (budgets two_budget_store))"
    and m: "february_budget \<in> set (budgets two_budget_store)"
    and u: "b_userId february_budget = ''alice''"
    by (simp_all add: two_budget_store_def january_budget_def february_budget_def)
  have i: "b_id february_budget = ''b-feb''" by (simp add: february_budget_def)
  have ne: "january_budget \<noteq> february_budget"
    by (simp add: january_budget_def february_budget_def)
  have o: "overlap_where ''alice'' (iso_date 2024 1 10) (iso_date 2024 2 28) january_budget"
    by (simp add: overlap_where_def january_budget_def iso_dates)
  have r: "apply_UpdateBudgetDto ?widen february_budget
             = february_budget\<lparr>b_startDate := iso_date 2024 1 10\<rparr>"
    by (simp add: apply_UpdateBudgetDto_def)
  show ?thesis
    using budgets_update_range_only [OF d m u, of ?widen]
      budgets_update_range_only [OF d m u, of ?collapse] o ne
    by (simp add: i r Let_def two_budget_store_def)
       (simp add: february_budget_def iso_dates)
qed


section \<open>Budget planner: status\<close>











end
